theory Spec2Isabelle
  imports Main
begin

section \<open>The external URI opener service\<close>

text \<open>
  A shallow embedding of \<^verbatim>\<open>ExternalUriOpenerService.openExternal\<close>
  (\<^verbatim>\<open>vs/workbench/contrib/externalUriOpener/common/externalUriOpenerService.ts\<close>).
  The method is asynchronous and talks to five collaborators. Its model returns the value
  the promise settles with (\<open>Inr b\<close> for a boolean, \<open>Inl e\<close> for a rejection) together with
  the list of effects it caused, in the order it caused them.
\<close>

subsection \<open>Data\<close>

text \<open>A thrown value, or the reason of a rejected promise.\<close>

datatype error = Error string

text \<open>
  The argument of \<^verbatim>\<open>openExternal\<close>. It is declared a string, and the first line of the
  method tests \<^verbatim>\<open>typeof href === 'string'\<close>: a URI object is accepted as well. The type
  \<open>'u\<close> of URI objects is a parameter (the class \<^verbatim>\<open>URI\<close> is imported).
\<close>

datatype 'u href = HrefString string | HrefUri 'u

text \<open>
  \<^verbatim>\<open>ExternalOpenerEntry\<close>: an \<^verbatim>\<open>IExternalOpener\<close> with an id and a label. What its
  \<^verbatim>\<open>openExternal(href)\<close> settles with is a function of the argument.
\<close>

record 'u ExternalOpenerEntry =
  opener_id :: string
  opener_label :: string
  opener_openExternal :: "'u href \<Rightarrow> error + bool"

text \<open>
  \<^verbatim>\<open>ExternalOpenerSet\<close>: the openers of one provider and a \<^verbatim>\<open>dispose()\<close> method. The
  set is an object: \<open>dispose_handle\<close> is its identity, and disposing it is the effect
  \<open>Dispose\<close> of that identity.
\<close>

record 'u ExternalOpenerSet =
  openers :: "'u ExternalOpenerEntry list"
  dispose_handle :: nat

text \<open>
  \<^verbatim>\<open>IExternalOpenerProvider\<close>: \<^verbatim>\<open>provideExternalOpeners(resource)\<close> resolves to a set or
  to \<^verbatim>\<open>undefined\<close>, or rejects.
\<close>

type_synonym 'u IExternalOpenerProvider = "'u \<Rightarrow> error + 'u ExternalOpenerSet option"

text \<open>\<^verbatim>\<open>ExternalUriOpenerConfiguration\<close>: one entry of the configured list.\<close>

record ExternalUriOpenerConfiguration =
  hostname :: string
  config_id :: string

text \<open>
  The local type \<^verbatim>\<open>PickItem\<close>: a label and the optional field
  \<^verbatim>\<open>opener?: IExternalOpener | 'configureDefault'\<close>.
\<close>

datatype 'u PickOpener =
    Undefined
  | ConfigureDefault
  | AnOpener "'u ExternalOpenerEntry"

record 'u PickItem =
  label :: string
  opener :: "'u PickOpener"

datatype 'u QuickPickEntry = Item "'u PickItem" | Separator

text \<open>The option \<^verbatim>\<open>revealSetting: { key, edit }\<close> of \<^verbatim>\<open>openGlobalSettings\<close>.\<close>

record RevealSetting =
  key :: string
  edit :: bool

text \<open>The effects of one call, as the collaborators see them.\<close>

datatype 'u event =
    Pick "'u QuickPickEntry list" string
  | OpenGlobalSettings bool RevealSetting
  | OpenExternal "'u ExternalOpenerEntry" "'u href"
  | Dispose nat

text \<open>
  The collaborators the method uses and the source file does not define, as parameters:
  \<^item> \<open>uri_parse\<close> is \<^verbatim>\<open>URI.parse\<close>, which throws on some strings;
  \<^item> \<open>uri_toString\<close> is \<^verbatim>\<open>targetUri.toString()\<close>;
  \<^item> \<open>url_hostname s\<close> is \<^verbatim>\<open>new URL(s).hostname\<close>; the constructor throws on a string
    that is not a URL;
  \<^item> \<open>externalUriOpenersSettingId\<close> is the imported constant of that name;
  \<^item> \<open>getValue\<close> is \<^verbatim>\<open>configurationService.getValue\<close> (\<open>None\<close> for \<^verbatim>\<open>undefined\<close>);
  \<^item> \<open>pick\<close> is \<^verbatim>\<open>quickInputService.pick(items, { placeHolder })\<close>: it resolves to an
    item or to \<^verbatim>\<open>undefined\<close>, or rejects;
  \<^item> \<open>openGlobalSettings\<close> is \<^verbatim>\<open>preferencesService.openGlobalSettings(json, { revealSetting })\<close>;
    its value is not used, so only whether it resolves or rejects is kept.
\<close>

record 'u services =
  uri_parse :: "string \<Rightarrow> error + 'u"
  uri_toString :: "'u \<Rightarrow> string"
  url_hostname :: "string \<Rightarrow> error + string"
  externalUriOpenersSettingId :: string
  getValue :: "string \<Rightarrow> ExternalUriOpenerConfiguration list option"
  pick :: "'u QuickPickEntry list \<Rightarrow> string \<Rightarrow> error + 'u PickItem option"
  openGlobalSettings :: "bool \<Rightarrow> RevealSetting \<Rightarrow> error + unit"

subsection \<open>The disposable store\<close>

text \<open>
  Modelled from the spec: the class \<^verbatim>\<open>DisposableStore\<close> of \<^verbatim>\<open>vs/base/common/lifecycle\<close>
  is not under src/. The spec speaks of the set of all gathered Opener Sets, whose disposal
  handles are retained during gathering and all released at the end. The store is that
  set, kept in the order of insertion: adding an object it already holds changes nothing,
  and disposing the store disposes every object it holds, once, in that order. The
  \<^verbatim>\<open>dispose()\<close> of an Opener Set is declared to return nothing and is taken to complete.
\<close>

type_synonym DisposableStore = "nat list"

definition store_add :: "DisposableStore \<Rightarrow> nat \<Rightarrow> DisposableStore" where
  "store_add st h = (if h \<in> set st then st else st @ [h])"

definition store_dispose :: "DisposableStore \<Rightarrow> 'u event list" where
  "store_dispose st = map Dispose st"

subsection \<open>The method\<close>

text \<open>Line 65: \<^verbatim>\<open>typeof href === 'string' ? URI.parse(href) : href\<close>.\<close>

definition targetUri_of :: "'u services \<Rightarrow> 'u href \<Rightarrow> error + 'u" where
  "targetUri_of sv href = (case href of HrefString s \<Rightarrow> uri_parse sv s | HrefUri u \<Rightarrow> Inr u)"

text \<open>
  Lines 67 to 75, the gathering loop over the registered providers, with the two
  variables it updates. A rejected \<^verbatim>\<open>await\<close> leaves the loop and the method.
\<close>

fun gather ::
  "'u IExternalOpenerProvider list \<Rightarrow> 'u \<Rightarrow> DisposableStore \<Rightarrow> 'u ExternalOpenerEntry list
     \<Rightarrow> error + (DisposableStore \<times> 'u ExternalOpenerEntry list)" where
  "gather [] targetUri toDispose os = Inr (toDispose, os)"
| "gather (provider # rest) targetUri toDispose os =
     (case provider targetUri of
        Inl e \<Rightarrow> Inl e
      | Inr None \<Rightarrow> gather rest targetUri toDispose os
      | Inr (Some s) \<Rightarrow>
          gather rest targetUri (store_add toDispose (dispose_handle s)) (os @ openers s))"

text \<open>
  Lines 84 to 91, the loop over the configuration: the opener of the first
  \<^verbatim>\<open>return\<close> it reaches, or \<open>None\<close> when it runs to its end.
\<close>

fun scan_config ::
  "ExternalUriOpenerConfiguration list \<Rightarrow> string \<Rightarrow> 'u ExternalOpenerEntry list
     \<Rightarrow> 'u ExternalOpenerEntry option" where
  "scan_config [] host os = None"
| "scan_config (entry # rest) host os =
     (if hostname entry = host then
        (case find (\<lambda>x. opener_id x = config_id entry) os of
           Some found \<Rightarrow> Some found
         | None \<Rightarrow> scan_config rest host os)
      else scan_config rest host os)"

text \<open>Lines 94 to 109, the items handed to the picker.\<close>

definition pick_items :: "'u ExternalOpenerEntry list \<Rightarrow> 'u QuickPickEntry list" where
  "pick_items os =
     map (\<lambda>x. Item \<lparr>label = opener_label x, opener = AnOpener x\<rparr>) os @
     [Item \<lparr>label = ''Default'', opener = Undefined\<rparr>,
      Separator,
      Item \<lparr>label = ''Configure default opener...'', opener = ConfigureDefault\<rparr>]"

definition placeHolder :: "'u services \<Rightarrow> 'u \<Rightarrow> string" where
  "placeHolder sv targetUri = ''Select opener for '' @ uri_toString sv targetUri"

text \<open>
  Lines 111 to 129: the picker and the branches on what it resolved to. A
  \<^verbatim>\<open>return opener.openExternal(href)\<close> makes the call, and the method settles with what
  the call settles with.
\<close>

definition pick_and_open ::
  "'u services \<Rightarrow> 'u href \<Rightarrow> 'u \<Rightarrow> 'u ExternalOpenerEntry list
     \<Rightarrow> (error + bool) \<times> 'u event list" where
  "pick_and_open sv href targetUri os =
     (let items = pick_items os;
          prompt = Pick items (placeHolder sv targetUri)
      in case pick sv items (placeHolder sv targetUri) of
           Inl e \<Rightarrow> (Inl e, [prompt])
         | Inr None \<Rightarrow> (Inr True, [prompt])
         | Inr (Some picked) \<Rightarrow>
             (case opener picked of
                Undefined \<Rightarrow> (Inr True, [prompt])
              | ConfigureDefault \<Rightarrow>
                  (let reveal = \<lparr>key = externalUriOpenersSettingId sv, edit = True\<rparr>
                   in case openGlobalSettings sv True reveal of
                        Inl e \<Rightarrow> (Inl e, [prompt, OpenGlobalSettings True reveal])
                      | Inr _ \<Rightarrow> (Inr True, [prompt, OpenGlobalSettings True reveal]))
              | AnOpener chosen \<Rightarrow>
                  (opener_openExternal chosen href, [prompt, OpenExternal chosen href])))"

text \<open>Lines 78 to 129, the body of the \<^verbatim>\<open>try\<close> block.\<close>

definition try_block ::
  "'u services \<Rightarrow> 'u href \<Rightarrow> 'u \<Rightarrow> 'u ExternalOpenerEntry list
     \<Rightarrow> (error + bool) \<times> 'u event list" where
  "try_block sv href targetUri os =
     (if os = [] then (Inr False, [])
      else case url_hostname sv (uri_toString sv targetUri) of
             Inl e \<Rightarrow> (Inl e, [])
           | Inr host \<Rightarrow>
               (let config = (case getValue sv (externalUriOpenersSettingId sv) of
                                None \<Rightarrow> [] | Some c \<Rightarrow> c)
                in case scan_config config host os of
                     Some configured \<Rightarrow>
                       (opener_openExternal configured href, [OpenExternal configured href])
                   | None \<Rightarrow> pick_and_open sv href targetUri os))"

text \<open>
  The whole method. The \<^verbatim>\<open>finally\<close> block (lines 130 to 132) runs after the \<^verbatim>\<open>try\<close>
  block however that ended; it is not reached when line 65 throws or the gathering loop
  is left by a rejection.
\<close>

definition openExternal ::
  "'u services \<Rightarrow> 'u IExternalOpenerProvider list \<Rightarrow> 'u href
     \<Rightarrow> (error + bool) \<times> 'u event list" where
  "openExternal sv providers href =
     (case targetUri_of sv href of
        Inl e \<Rightarrow> (Inl e, [])
      | Inr targetUri \<Rightarrow>
          (case gather providers targetUri [] [] of
             Inl e \<Rightarrow> (Inl e, [])
           | Inr (toDispose, os) \<Rightarrow>
               (let (r, effects) = try_block sv href targetUri os
                in (r, effects @ store_dispose toDispose))))"

subsection \<open>Reading the effects of a call\<close>

fun invoked :: "'u event list \<Rightarrow> ('u ExternalOpenerEntry \<times> 'u href) list" where
  "invoked [] = []"
| "invoked (OpenExternal x h # es) = (x, h) # invoked es"
| "invoked (_ # es) = invoked es"

fun shown :: "'u event list \<Rightarrow> ('u QuickPickEntry list \<times> string) list" where
  "shown [] = []"
| "shown (Pick items ph # es) = (items, ph) # shown es"
| "shown (_ # es) = shown es"

fun revealed :: "'u event list \<Rightarrow> (bool \<times> RevealSetting) list" where
  "revealed [] = []"
| "revealed (OpenGlobalSettings json r # es) = (json, r) # revealed es"
| "revealed (_ # es) = revealed es"

fun disposed :: "'u event list \<Rightarrow> nat list" where
  "disposed [] = []"
| "disposed (Dispose h # es) = h # disposed es"
| "disposed (_ # es) = disposed es"

subsection \<open>A small installation\<close>

text \<open>
  Concrete collaborators, openers and providers on which the properties below are run.
  URI objects are strings here: parsing appends the root path to a string that has a
  scheme separator and throws on one that has none, and only the one target has a host.
\<close>

definition demo_parse :: "string \<Rightarrow> error + string" where
  "demo_parse s = (if CHR '':'' \<in> set s then Inr (s @ ''/'') else Inl (Error ''UriError''))"

definition demo_toString :: "string \<Rightarrow> string" where
  "demo_toString u = u"

definition demo_hostname :: "string \<Rightarrow> error + string" where
  "demo_hostname s =
     (if s = ''http://example.com/'' then Inr ''example.com'' else Inl (Error ''TypeError''))"

definition demo_getValue ::
  "ExternalUriOpenerConfiguration list option \<Rightarrow> string
     \<Rightarrow> ExternalUriOpenerConfiguration list option" where
  "demo_getValue stored k = (if k = ''workbench.externalUriOpeners'' then stored else None)"

definition demo_pick ::
  "error + string PickItem option \<Rightarrow> string QuickPickEntry list \<Rightarrow> string
     \<Rightarrow> error + string PickItem option" where
  "demo_pick answer items ph = answer"

definition demo_openGlobalSettings :: "bool \<Rightarrow> RevealSetting \<Rightarrow> error + unit" where
  "demo_openGlobalSettings json r = Inr ()"

definition demo_services ::
  "ExternalUriOpenerConfiguration list option \<Rightarrow> error + string PickItem option
     \<Rightarrow> string services" where
  "demo_services stored answer =
     \<lparr>uri_parse = demo_parse,
      uri_toString = demo_toString,
      url_hostname = demo_hostname,
      externalUriOpenersSettingId = ''workbench.externalUriOpeners'',
      getValue = demo_getValue stored,
      pick = demo_pick answer,
      openGlobalSettings = demo_openGlobalSettings\<rparr>"

text \<open>The same installation with a Settings UI whose operation rejects.\<close>

definition failing_openGlobalSettings :: "bool \<Rightarrow> RevealSetting \<Rightarrow> error + unit" where
  "failing_openGlobalSettings json r = Inl (Error ''settings failed'')"

definition demo_services_failing_settings ::
  "ExternalUriOpenerConfiguration list option \<Rightarrow> error + string PickItem option
     \<Rightarrow> string services" where
  "demo_services_failing_settings stored answer =
     \<lparr>uri_parse = demo_parse,
      uri_toString = demo_toString,
      url_hostname = demo_hostname,
      externalUriOpenersSettingId = ''workbench.externalUriOpeners'',
      getValue = demo_getValue stored,
      pick = demo_pick answer,
      openGlobalSettings = failing_openGlobalSettings\<rparr>"

text \<open>Opener A takes the link only in the form it was clicked; opener B fails.\<close>

definition run_A :: "string href \<Rightarrow> error + bool" where
  "run_A h = Inr (h = HrefString ''http://example.com'')"

definition run_B :: "string href \<Rightarrow> error + bool" where
  "run_B h = Inl (Error ''B failed'')"

definition opener_A :: "string ExternalOpenerEntry" where
  "opener_A = \<lparr>opener_id = ''a'', opener_label = ''A'', opener_openExternal = run_A\<rparr>"

definition opener_B :: "string ExternalOpenerEntry" where
  "opener_B = \<lparr>opener_id = ''b'', opener_label = ''B'', opener_openExternal = run_B\<rparr>"

definition provider_A :: "string IExternalOpenerProvider" where
  "provider_A u = Inr (Some \<lparr>openers = [opener_A], dispose_handle = 1\<rparr>)"

definition provider_B :: "string IExternalOpenerProvider" where
  "provider_B u = Inr (Some \<lparr>openers = [opener_B], dispose_handle = 2\<rparr>)"

definition provider_empty :: "string IExternalOpenerProvider" where
  "provider_empty u = Inr (Some \<lparr>openers = [], dispose_handle = 3\<rparr>)"

definition provider_undefined :: "string IExternalOpenerProvider" where
  "provider_undefined u = Inr None"

definition provider_rejecting :: "string IExternalOpenerProvider" where
  "provider_rejecting u = Inl (Error ''provider failed'')"

definition item_of :: "string ExternalOpenerEntry \<Rightarrow> string PickItem" where
  "item_of x = \<lparr>label = opener_label x, opener = AnOpener x\<rparr>"

definition item_default :: "string PickItem" where
  "item_default = \<lparr>label = ''Default'', opener = Undefined\<rparr>"

definition item_configure :: "string PickItem" where
  "item_configure = \<lparr>label = ''Configure default opener...'', opener = ConfigureDefault\<rparr>"

definition binding :: "string \<Rightarrow> string \<Rightarrow> ExternalUriOpenerConfiguration" where
  "binding h i = \<lparr>hostname = h, config_id = i\<rparr>"

section \<open>Properties\<close>

lemma invoked_append: "invoked (xs @ ys) = invoked xs @ invoked ys"
  by (induction xs rule: invoked.induct) simp_all

lemma shown_append: "shown (xs @ ys) = shown xs @ shown ys"
  by (induction xs rule: shown.induct) simp_all

lemma revealed_append: "revealed (xs @ ys) = revealed xs @ revealed ys"
  by (induction xs rule: revealed.induct) simp_all

lemma disposed_append: "disposed (xs @ ys) = disposed xs @ disposed ys"
  by (induction xs rule: disposed.induct) simp_all

lemma invoked_store_dispose: "invoked (store_dispose st) = []"
  by (induction st) (simp_all add: store_dispose_def)

lemma shown_store_dispose: "shown (store_dispose st) = []"
  by (induction st) (simp_all add: store_dispose_def)

lemma revealed_store_dispose: "revealed (store_dispose st) = []"
  by (induction st) (simp_all add: store_dispose_def)

lemma disposed_store_dispose: "disposed (store_dispose st) = st"
  by (induction st) (simp_all add: store_dispose_def)

subsection \<open>The gathering loop\<close>

lemma gather_append:
  "gather (xs @ ys) u st os =
     (case gather xs u st os of Inl e \<Rightarrow> Inl e | Inr (st', os') \<Rightarrow> gather ys u st' os')"
  by (induction xs u st os rule: gather.induct) (simp_all split: sum.splits option.splits)

lemma distinct_store_add: "distinct st \<Longrightarrow> distinct (store_add st h)"
  by (simp add: store_add_def)

lemma gather_distinct:
  "distinct st \<Longrightarrow> gather ps u st os = Inr (st', os') \<Longrightarrow> distinct st'"
  by (induction ps u st os rule: gather.induct)
     (auto split: sum.splits option.splits simp: distinct_store_add)

lemma set_store_add: "set (store_add st h) = insert h (set st)"
  by (auto simp add: store_add_def)

lemma gather_retains:
  "gather ps u st os = Inr (st', os') \<Longrightarrow>
     set st' = set st \<union> {h. \<exists>p \<in> set ps. \<exists>s. p u = Inr (Some s) \<and> dispose_handle s = h}"
proof (induction ps u st os rule: gather.induct)
  case (1 targetUri toDispose os)
  then show ?case by simp
next
  case (2 provider rest targetUri toDispose os)
  show ?case
  proof (cases "provider targetUri")
    case (Inl e)
    with "2.prems" show ?thesis by simp
  next
    case (Inr r)
    show ?thesis
    proof (cases r)
      case None
      with Inr "2.prems" "2.IH"(1) show ?thesis by auto
    next
      case (Some s)
      with Inr "2.prems" "2.IH"(2) [of r s] show ?thesis
        by (auto simp add: set_store_add)
    qed
  qed
qed

lemma gather_no_openers:
  assumes "\<forall>p \<in> set ps. p u = Inr None \<or> (\<exists>s. p u = Inr (Some s) \<and> openers s = [])"
  shows "\<exists>st'. gather ps u st os = Inr (st', os)"
  using assms
proof (induction ps arbitrary: st)
  case Nil
  then show ?case by simp
next
  case (Cons p ps)
  then show ?case by (auto split: sum.splits option.splits)
qed

lemma count_list_distinct: "distinct xs \<Longrightarrow> x \<in> set xs \<Longrightarrow> count_list xs x = 1"
  by (induction xs) auto

subsection \<open>The configuration scan\<close>

lemma scan_config_skips:
  assumes "\<forall>e \<in> set skipped. hostname e \<noteq> host \<or> config_id e \<notin> opener_id ` set os"
  shows "scan_config (skipped @ rest) host os = scan_config rest host os"
  using assms
proof (induction skipped)
  case Nil
  then show ?case by simp
next
  case (Cons e skipped)
  then have "hostname e = host \<Longrightarrow> find (\<lambda>x. opener_id x = config_id e) os = None"
    by (force simp add: find_None_iff image_iff)
  with Cons show ?case by simp
qed

lemma scan_config_no_openers: "scan_config config host [] = None"
  by (induction config) simp_all

subsection \<open>The decision logic\<close>

lemma invoked_pick_and_open:
  "invoked (snd (pick_and_open sv href u os)) = [] \<or>
   (\<exists>x. invoked (snd (pick_and_open sv href u os)) = [(x, href)])"
  by (simp add: pick_and_open_def Let_def split: sum.splits option.splits PickOpener.splits)

lemma invoked_try_block:
  "invoked (snd (try_block sv href u os)) = [] \<or>
   (\<exists>x. invoked (snd (try_block sv href u os)) = [(x, href)])"
  using invoked_pick_and_open [of sv href u os]
  by (auto simp add: try_block_def Let_def split: sum.splits option.splits)

lemma disposed_pick_and_open: "disposed (snd (pick_and_open sv href u os)) = []"
  by (simp add: pick_and_open_def Let_def split: sum.splits option.splits PickOpener.splits)

lemma disposed_try_block: "disposed (snd (try_block sv href u os)) = []"
  by (simp add: try_block_def Let_def disposed_pick_and_open split: sum.splits option.splits)

lemma shown_pick_and_open:
  "shown (snd (pick_and_open sv href u os)) = [(pick_items os, placeHolder sv u)]"
  by (simp add: pick_and_open_def Let_def split: sum.splits option.splits PickOpener.splits)

text \<open>Once the gathering loop has run to its end, the method is its \<^verbatim>\<open>try\<close> block
  followed by the disposal of the store.\<close>

lemma openExternal_gathered:
  assumes "targetUri_of sv href = Inr u"
    and "gather providers u [] [] = Inr (retained, os)"
  shows "openExternal sv providers href =
    (fst (try_block sv href u os), snd (try_block sv href u os) @ store_dispose retained)"
  using assms by (simp add: openExternal_def split: prod.splits)

text \<open>A call that showed the picker went through \<open>pick_and_open\<close>.\<close>

lemma picker_shown:
  assumes "(items, ph) \<in> set (shown (snd (openExternal sv providers href)))"
  shows "\<exists>u retained os. items = pick_items os \<and> ph = placeHolder sv u \<and>
           openExternal sv providers href =
             (fst (pick_and_open sv href u os),
              snd (pick_and_open sv href u os) @ store_dispose retained)"
proof (cases "targetUri_of sv href")
  case (Inl e)
  with assms show ?thesis by (simp add: openExternal_def)
next
  case (Inr u)
  show ?thesis
  proof (cases "gather providers u [] []")
    case (Inl e)
    with Inr assms show ?thesis by (simp add: openExternal_def)
  next
    case gathered: (Inr g)
    obtain retained os where g: "gather providers u [] [] = Inr (retained, os)"
      using gathered by (cases g) simp
    note run = openExternal_gathered [OF Inr g]
    from assms have mem: "(items, ph) \<in> set (shown (snd (try_block sv href u os)))"
      by (simp add: run shown_append shown_store_dispose)
    then have tb: "try_block sv href u os = pick_and_open sv href u os"
      by (auto simp add: try_block_def Let_def split: if_splits sum.splits option.splits)
    from mem have "items = pick_items os \<and> ph = placeHolder sv u"
      by (simp add: tb shown_pick_and_open)
    with run tb show ?thesis by auto
  qed
qed

subsection \<open>One opener at most\<close>

text \<open>
  Claim C8. One call to \<open>openExternal\<close> invokes the \<open>openExternal\<close> of at most one
  gathered opener, and at most once: whatever the collaborators answer, the effects of
  the call hold at most one invocation, since the configured delegation returns before
  the picker is built and the picker's branches invoke one opener or none.
\<close>

theorem at_most_one_opener_invoked:
  "length (invoked (snd (openExternal sv providers href))) \<le> 1"
proof (cases "targetUri_of sv href")
  case (Inl e)
  then show ?thesis by (simp add: openExternal_def)
next
  case (Inr u)
  show ?thesis
  proof (cases "gather providers u [] []")
    case (Inl e)
    with Inr show ?thesis by (simp add: openExternal_def)
  next
    case gathered: (Inr g)
    obtain toDispose os where g: "g = (toDispose, os)" by (cases g)
    have "invoked (snd (openExternal sv providers href)) = invoked (snd (try_block sv href u os))"
      using Inr gathered g
      by (simp add: openExternal_def invoked_append invoked_store_dispose split: prod.splits)
    with invoked_try_block [of sv href u os] show ?thesis by auto
  qed
qed

subsection \<open>Release of the retained handles\<close>

text \<open>
  Claim C1. For every call to \<open>openExternal\<close> that completes the gathering step (line 65
  produced the target URI \<open>u\<close> and the loop ran to its end with the store \<open>retained\<close>),
  every retained disposal handle is released exactly once before the call completes, on
  every exit path: the handles the call disposed are the retained ones, each of them is
  disposed exactly once, and the disposals are the last effects of the call. The
  collaborators, the providers and the argument are arbitrary, so the statement covers
  the empty list, the configured delegation, a cancelled picker, the items Default and
  Configure default opener..., a picked opener, and every throwing or rejecting
  collaborator after the gathering.
\<close>

theorem retained_handles_released_once:
  assumes "targetUri_of sv href = Inr u"
    and "gather providers u [] [] = Inr (retained, os)"
  shows "disposed (snd (openExternal sv providers href)) = retained
    \<and> (\<forall>h \<in> set retained. count_list (disposed (snd (openExternal sv providers href))) h = 1)
    \<and> (\<exists>before. snd (openExternal sv providers href) = before @ map Dispose retained
          \<and> disposed before = [])"
proof -
  have d: "distinct retained"
    using gather_distinct [of "[]" providers u "[]" retained os] assms(2) by simp
  have tr: "snd (openExternal sv providers href) =
              snd (try_block sv href u os) @ map Dispose retained"
    using openExternal_gathered [OF assms] by (simp add: store_dispose_def)
  have dis: "disposed (snd (openExternal sv providers href)) = retained"
    using openExternal_gathered [OF assms]
    by (simp add: disposed_append disposed_try_block disposed_store_dispose)
  have cnt: "\<forall>h \<in> set retained.
               count_list (disposed (snd (openExternal sv providers href))) h = 1"
    using d dis by (simp add: count_list_distinct)
  from tr disposed_try_block [of sv href u os]
  have "\<exists>before. snd (openExternal sv providers href) = before @ map Dispose retained
          \<and> disposed before = []" by blast
  with dis cnt show ?thesis by blast
qed

text \<open>Three providers, the second with an empty set; the user picks B, which fails.\<close>

theorem retained_handles_released_once_witness:
  "targetUri_of (demo_services None (Inr (Some (item_of opener_B))))
      (HrefString ''http://example.com'') = Inr ''http://example.com/''
   \<and> gather [provider_A, provider_empty, provider_B] ''http://example.com/'' [] [] =
       Inr ([1, 3, 2], [opener_A, opener_B])
   \<and> disposed (snd (openExternal (demo_services None (Inr (Some (item_of opener_B))))
       [provider_A, provider_empty, provider_B] (HrefString ''http://example.com''))) = [1, 3, 2]
   \<and> count_list (disposed (snd (openExternal (demo_services None (Inr (Some (item_of opener_B))))
       [provider_A, provider_empty, provider_B] (HrefString ''http://example.com'')))) 3 = 1"
proof -
  have u: "targetUri_of (demo_services None (Inr (Some (item_of opener_B))))
      (HrefString ''http://example.com'') = Inr ''http://example.com/''"
    by (simp add: targetUri_of_def demo_services_def demo_parse_def)
  have g: "gather [provider_A, provider_empty, provider_B] ''http://example.com/'' [] [] =
       Inr ([1, 3, 2], [opener_A, opener_B])"
    by (simp add: provider_A_def provider_empty_def provider_B_def store_add_def)
  from retained_handles_released_once [OF u g] u g show ?thesis by simp
qed

subsection \<open>Delegation to the configured opener\<close>

text \<open>
  Claim C2. When openers were gathered, the configuration is scanned in its stored order:
  let \<open>entry\<close> be the first entry whose hostname is the hostname of the target URI and
  whose id is the id of a gathered opener (every entry before it, in \<open>skipped\<close>, has
  another hostname or an id that no gathered opener has; such an entry does not stop the
  scan). Then the gathered opener with that id (the first, should several share it) has
  its \<open>openExternal\<close> invoked with the argument of the call, what it settles with is the
  result of the call, and the picker is not shown.
\<close>

theorem configured_opener_delegation:
  assumes "targetUri_of sv href = Inr u"
    and "gather providers u [] [] = Inr (retained, os)"
    and "url_hostname sv (uri_toString sv u) = Inr host"
    and "getValue sv (externalUriOpenersSettingId sv) = Some (skipped @ entry # later)"
    and "\<forall>e \<in> set skipped. hostname e \<noteq> host \<or> config_id e \<notin> opener_id ` set os"
    and "hostname entry = host"
    and "config_id entry \<in> opener_id ` set os"
  shows "\<exists>chosen. find (\<lambda>x. opener_id x = config_id entry) os = Some chosen
       \<and> chosen \<in> set os \<and> opener_id chosen = config_id entry
       \<and> fst (openExternal sv providers href) = opener_openExternal chosen href
       \<and> invoked (snd (openExternal sv providers href)) = [(chosen, href)]
       \<and> shown (snd (openExternal sv providers href)) = []"
proof -
  from assms(7) obtain chosen where
    f: "find (\<lambda>x. opener_id x = config_id entry) os = Some chosen"
    by (cases "find (\<lambda>x. opener_id x = config_id entry) os") (auto simp add: find_None_iff)
  then have m: "chosen \<in> set os \<and> opener_id chosen = config_id entry"
    by (auto simp add: find_Some_iff)
  then have ne: "os \<noteq> []" by auto
  have "scan_config (skipped @ entry # later) host os = Some chosen"
    using scan_config_skips [OF assms(5)] assms(6) f by simp
  with assms(3,4) ne have
    "try_block sv href u os = (opener_openExternal chosen href, [OpenExternal chosen href])"
    by (simp add: try_block_def)
  with openExternal_gathered [OF assms(1,2)] f m show ?thesis
    by (simp add: invoked_store_dispose shown_store_dispose)
qed

text \<open>
  Four bindings: the first names the host and an unknown opener, the second another
  host, the third binds the host to A, which takes the link.
\<close>

theorem configured_opener_delegation_witness:
  "fst (openExternal
      (demo_services (Some [binding ''example.com'' ''zz'', binding ''other.org'' ''a'',
                            binding ''example.com'' ''a'', binding ''example.com'' ''b''])
         (Inr None))
      [provider_A, provider_B] (HrefString ''http://example.com'')) = Inr True
   \<and> invoked (snd (openExternal
      (demo_services (Some [binding ''example.com'' ''zz'', binding ''other.org'' ''a'',
                            binding ''example.com'' ''a'', binding ''example.com'' ''b''])
         (Inr None))
      [provider_A, provider_B] (HrefString ''http://example.com''))) =
       [(opener_A, HrefString ''http://example.com'')]
   \<and> shown (snd (openExternal
      (demo_services (Some [binding ''example.com'' ''zz'', binding ''other.org'' ''a'',
                            binding ''example.com'' ''a'', binding ''example.com'' ''b''])
         (Inr None))
      [provider_A, provider_B] (HrefString ''http://example.com''))) = []"
proof -
  let ?sv = "demo_services (Some [binding ''example.com'' ''zz'', binding ''other.org'' ''a'',
                            binding ''example.com'' ''a'', binding ''example.com'' ''b''])
         (Inr None)"
  have u: "targetUri_of ?sv (HrefString ''http://example.com'') = Inr ''http://example.com/''"
    by (simp add: targetUri_of_def demo_services_def demo_parse_def)
  have g: "gather [provider_A, provider_B] ''http://example.com/'' [] [] =
       Inr ([1, 2], [opener_A, opener_B])"
    by (simp add: provider_A_def provider_B_def store_add_def)
  have h: "url_hostname ?sv (uri_toString ?sv ''http://example.com/'') = Inr ''example.com''"
    by (simp add: demo_services_def demo_toString_def demo_hostname_def)
  have c: "getValue ?sv (externalUriOpenersSettingId ?sv) =
       Some ([binding ''example.com'' ''zz'', binding ''other.org'' ''a''] @
             binding ''example.com'' ''a'' # [binding ''example.com'' ''b''])"
    by (simp add: demo_services_def demo_getValue_def)
  have s: "\<forall>e \<in> set [binding ''example.com'' ''zz'', binding ''other.org'' ''a''].
       hostname e \<noteq> ''example.com'' \<or> config_id e \<notin> opener_id ` set [opener_A, opener_B]"
    by (simp add: binding_def opener_A_def opener_B_def)
  have e: "hostname (binding ''example.com'' ''a'') = ''example.com''"
    by (simp add: binding_def)
  have i: "config_id (binding ''example.com'' ''a'') \<in> opener_id ` set [opener_A, opener_B]"
    by (simp add: binding_def opener_A_def opener_B_def)
  from configured_opener_delegation [OF u g h c s e i] show ?thesis
    by (simp add: binding_def opener_A_def opener_B_def run_A_def)
qed

subsection \<open>No opener available\<close>

text \<open>
  Claim C3. When the flattened list of gathered openers is empty, \<open>openExternal\<close> resolves
  to false, the picker is not presented, no opener is invoked, and every retained handle
  is released: the only effects of the call are the disposals of the retained handles. In
  particular this is so when no provider is registered, and when every registered
  provider answers with \<^verbatim>\<open>undefined\<close> or with a set that has no openers. (The target URI
  \<open>u\<close> is what line 65 produced: the gathering is reached.)
\<close>

theorem no_openers_resolves_false:
  assumes "targetUri_of sv href = Inr u"
  shows "(gather providers u [] [] = Inr (retained, []) \<longrightarrow>
            openExternal sv providers href = (Inr False, map Dispose retained)
          \<and> shown (snd (openExternal sv providers href)) = []
          \<and> invoked (snd (openExternal sv providers href)) = []
          \<and> disposed (snd (openExternal sv providers href)) = retained)
       \<and> (providers = [] \<longrightarrow> openExternal sv providers href = (Inr False, []))
       \<and> ((\<forall>p \<in> set providers.
              p u = Inr None \<or> (\<exists>s. p u = Inr (Some s) \<and> openers s = [])) \<longrightarrow>
            (\<exists>held. gather providers u [] [] = Inr (held, [])
               \<and> openExternal sv providers href = (Inr False, map Dispose held)))"
proof (intro conjI impI)
  assume "gather providers u [] [] = Inr (retained, [])"
  from openExternal_gathered [OF assms this]
  have r: "openExternal sv providers href = (Inr False, store_dispose retained)"
    by (simp add: try_block_def)
  then show "openExternal sv providers href = (Inr False, map Dispose retained)"
    by (simp add: store_dispose_def)
  show "shown (snd (openExternal sv providers href)) = []"
    by (simp add: r shown_store_dispose)
  show "invoked (snd (openExternal sv providers href)) = []"
    by (simp add: r invoked_store_dispose)
  show "disposed (snd (openExternal sv providers href)) = retained"
    by (simp add: r disposed_store_dispose)
next
  assume "providers = []"
  then have "gather providers u [] [] = Inr ([], [])" by simp
  from openExternal_gathered [OF assms this]
  show "openExternal sv providers href = (Inr False, [])"
    by (simp add: try_block_def store_dispose_def)
next
  assume a: "\<forall>p \<in> set providers.
               p u = Inr None \<or> (\<exists>s. p u = Inr (Some s) \<and> openers s = [])"
  from gather_no_openers [OF a, of "[]" "[]"]
  obtain held where g: "gather providers u [] [] = Inr (held, [])" by blast
  from openExternal_gathered [OF assms g]
  have "openExternal sv providers href = (Inr False, map Dispose held)"
    by (simp add: try_block_def store_dispose_def)
  with g show "\<exists>held. gather providers u [] [] = Inr (held, [])
               \<and> openExternal sv providers href = (Inr False, map Dispose held)" by blast
qed

text \<open>One provider answers \<^verbatim>\<open>undefined\<close>, the other with an empty set.\<close>

theorem no_openers_resolves_false_witness:
  "targetUri_of (demo_services None (Inr None)) (HrefString ''http://example.com'') =
     Inr ''http://example.com/''
   \<and> gather [provider_undefined, provider_empty] ''http://example.com/'' [] [] = Inr ([3], [])
   \<and> openExternal (demo_services None (Inr None)) [provider_undefined, provider_empty]
       (HrefString ''http://example.com'') = (Inr False, [Dispose 3])"
proof -
  have u: "targetUri_of (demo_services None (Inr None)) (HrefString ''http://example.com'') =
     Inr ''http://example.com/''"
    by (simp add: targetUri_of_def demo_services_def demo_parse_def)
  have g: "gather [provider_undefined, provider_empty] ''http://example.com/'' [] [] =
       Inr ([3], [])"
    by (simp add: provider_undefined_def provider_empty_def store_add_def)
  from no_openers_resolves_false [OF u, of "[provider_undefined, provider_empty]" "[3]"] u g
  show ?thesis by simp
qed

subsection \<open>A provider that rejects\<close>

text \<open>
  Claim C4. If the promise of a provider rejects partway through the gathering loop (the
  providers \<open>before\<close> it were queried and left the handles \<open>retained\<close> in the store), the
  rejection is the outcome of \<open>openExternal\<close>, and the call releases none of the handles
  retained so far: it has no effect at all, the \<^verbatim>\<open>finally\<close> block being around the
  decision logic only.
\<close>

theorem provider_rejection_releases_nothing:
  assumes "targetUri_of sv href = Inr u"
    and "gather before u [] [] = Inr (retained, os)"
    and "p u = Inl e"
  shows "openExternal sv (before @ p # after) href = (Inl e, [])
       \<and> (\<forall>h \<in> set retained. Dispose h \<notin> set (snd (openExternal sv (before @ p # after) href)))"
  using assms by (simp add: openExternal_def gather_append)

text \<open>Provider A has answered and its set is in the store when the next one rejects.\<close>

theorem provider_rejection_releases_nothing_witness:
  "gather [provider_A] ''http://example.com/'' [] [] = Inr ([1], [opener_A])
   \<and> provider_rejecting ''http://example.com/'' = Inl (Error ''provider failed'')
   \<and> openExternal (demo_services None (Inr None))
        ([provider_A] @ provider_rejecting # [provider_B])
        (HrefString ''http://example.com'') = (Inl (Error ''provider failed''), [])"
proof -
  have u: "targetUri_of (demo_services None (Inr None)) (HrefString ''http://example.com'') =
     Inr ''http://example.com/''"
    by (simp add: targetUri_of_def demo_services_def demo_parse_def)
  have g: "gather [provider_A] ''http://example.com/'' [] [] = Inr ([1], [opener_A])"
    by (simp add: provider_A_def store_add_def)
  have r: "provider_rejecting ''http://example.com/'' = Inl (Error ''provider failed'')"
    by (simp add: provider_rejecting_def)
  from provider_rejection_releases_nothing
         [where p = provider_rejecting and after = "[provider_B]", OF u g r] g r
  show ?thesis by simp
qed

subsection \<open>The answers of the picker\<close>

text \<open>
  Claim C5. Whenever the picker was shown and resolves to an item whose \<open>opener\<close> field is
  an opener, that opener's \<open>openExternal\<close> is invoked exactly once, with the argument
  \<open>href\<close> of the call as it was passed, and what it settles with is the outcome of the
  call.
\<close>

theorem picked_opener_delegation:
  assumes "(items, ph) \<in> set (shown (snd (openExternal sv providers href)))"
    and "pick sv items ph = Inr (Some picked)"
    and "opener picked = AnOpener chosen"
  shows "fst (openExternal sv providers href) = opener_openExternal chosen href
       \<and> invoked (snd (openExternal sv providers href)) = [(chosen, href)]"
proof -
  from picker_shown [OF assms(1)] obtain u retained os where
    i: "items = pick_items os" "ph = placeHolder sv u" and
    run: "openExternal sv providers href =
             (fst (pick_and_open sv href u os),
              snd (pick_and_open sv href u os) @ store_dispose retained)" by blast
  from assms(2,3) i have
    "pick_and_open sv href u os =
       (opener_openExternal chosen href, [Pick items ph, OpenExternal chosen href])"
    by (simp add: pick_and_open_def Let_def)
  with run show ?thesis by (simp add: invoked_append invoked_store_dispose)
qed

text \<open>The example of the spec, with the user picking A: A is called once and takes the link.\<close>

theorem picked_opener_delegation_witness:
  "shown (snd (openExternal (demo_services None (Inr (Some (item_of opener_A))))
      [provider_A, provider_B] (HrefString ''http://example.com''))) =
     [(pick_items [opener_A, opener_B], ''Select opener for http://example.com/'')]
   \<and> fst (openExternal (demo_services None (Inr (Some (item_of opener_A))))
      [provider_A, provider_B] (HrefString ''http://example.com'')) = Inr True
   \<and> invoked (snd (openExternal (demo_services None (Inr (Some (item_of opener_A))))
      [provider_A, provider_B] (HrefString ''http://example.com''))) =
     [(opener_A, HrefString ''http://example.com'')]"
proof -
  let ?sv = "demo_services None (Inr (Some (item_of opener_A)))"
  let ?run = "openExternal ?sv [provider_A, provider_B] (HrefString ''http://example.com'')"
  have s: "shown (snd ?run) =
     [(pick_items [opener_A, opener_B], ''Select opener for http://example.com/'')]"
    by (simp add: openExternal_def targetUri_of_def demo_services_def demo_parse_def
        provider_A_def provider_B_def store_add_def try_block_def opener_A_def opener_B_def
        demo_toString_def demo_hostname_def demo_getValue_def pick_and_open_def Let_def
        demo_pick_def item_of_def placeHolder_def store_dispose_def)
  then have m: "(pick_items [opener_A, opener_B], ''Select opener for http://example.com/'')
      \<in> set (shown (snd ?run))" by simp
  have p: "pick ?sv (pick_items [opener_A, opener_B]) ''Select opener for http://example.com/'' =
      Inr (Some (item_of opener_A))"
    by (simp add: demo_services_def demo_pick_def)
  have c: "opener (item_of opener_A) = AnOpener opener_A"
    by (simp add: item_of_def)
  from picked_opener_delegation [OF m p c] s show ?thesis
    by (simp add: opener_A_def run_A_def)
qed

text \<open>
  Claim C6. Whenever the picker was shown and the user makes no selection, or selects the
  item Default (the item whose \<open>opener\<close> field is undefined), \<open>openExternal\<close> returns true
  and the \<open>openExternal\<close> of no gathered opener is invoked.
\<close>

theorem cancel_or_default_returns_true:
  assumes "(items, ph) \<in> set (shown (snd (openExternal sv providers href)))"
    and "pick sv items ph = Inr None \<or>
         (\<exists>picked. pick sv items ph = Inr (Some picked) \<and> opener picked = Undefined)"
  shows "fst (openExternal sv providers href) = Inr True
       \<and> invoked (snd (openExternal sv providers href)) = []"
proof -
  from picker_shown [OF assms(1)] obtain u retained os where
    i: "items = pick_items os" "ph = placeHolder sv u" and
    run: "openExternal sv providers href =
             (fst (pick_and_open sv href u os),
              snd (pick_and_open sv href u os) @ store_dispose retained)" by blast
  from assms(2) i have
    "pick_and_open sv href u os = (Inr True, [Pick items ph])"
    by (auto simp add: pick_and_open_def Let_def)
  with run show ?thesis by (simp add: invoked_append invoked_store_dispose)
qed

text \<open>The user selects Default.\<close>

theorem cancel_or_default_returns_true_witness:
  "Item item_default \<in> set (pick_items [opener_A, opener_B])
   \<and> shown (snd (openExternal (demo_services None (Inr (Some item_default)))
      [provider_A, provider_B] (HrefString ''http://example.com''))) =
     [(pick_items [opener_A, opener_B], ''Select opener for http://example.com/'')]
   \<and> fst (openExternal (demo_services None (Inr (Some item_default)))
      [provider_A, provider_B] (HrefString ''http://example.com'')) = Inr True
   \<and> invoked (snd (openExternal (demo_services None (Inr (Some item_default)))
      [provider_A, provider_B] (HrefString ''http://example.com''))) = []"
proof -
  let ?sv = "demo_services None (Inr (Some item_default))"
  let ?run = "openExternal ?sv [provider_A, provider_B] (HrefString ''http://example.com'')"
  have s: "shown (snd ?run) =
     [(pick_items [opener_A, opener_B], ''Select opener for http://example.com/'')]"
    by (simp add: openExternal_def targetUri_of_def demo_services_def demo_parse_def
        provider_A_def provider_B_def store_add_def try_block_def opener_A_def opener_B_def
        demo_toString_def demo_hostname_def demo_getValue_def pick_and_open_def Let_def
        demo_pick_def item_default_def placeHolder_def store_dispose_def)
  then have m: "(pick_items [opener_A, opener_B], ''Select opener for http://example.com/'')
      \<in> set (shown (snd ?run))" by simp
  have p: "pick ?sv (pick_items [opener_A, opener_B]) ''Select opener for http://example.com/'' =
        Inr None \<or>
      (\<exists>picked. pick ?sv (pick_items [opener_A, opener_B])
           ''Select opener for http://example.com/'' = Inr (Some picked) \<and>
         opener picked = Undefined)"
    by (simp add: demo_services_def demo_pick_def item_default_def)
  have d: "Item item_default \<in> set (pick_items [opener_A, opener_B])"
    by (simp add: pick_items_def item_default_def)
  from cancel_or_default_returns_true [OF m p] s d show ?thesis by simp
qed

text \<open>
  Claim C7, as the code has it. Whenever the picker was shown and resolves to the item
  Configure default opener... (the item whose \<open>opener\<close> field is
  \<^verbatim>\<open>'configureDefault'\<close>), the Settings UI is asked once to reveal and edit the setting
  whose key is \<open>externalUriOpenersSettingId\<close>, the key the configuration was read with, and
  no opener is invoked. Line 123 awaits the operation: when it resolves, \<open>openExternal\<close>
  returns true; when it rejects, \<open>openExternal\<close> rejects with the same error.
\<close>

theorem configure_default_reveals_setting:
  assumes "(items, ph) \<in> set (shown (snd (openExternal sv providers href)))"
    and "pick sv items ph = Inr (Some picked)"
    and "opener picked = ConfigureDefault"
  shows "revealed (snd (openExternal sv providers href)) =
           [(True, \<lparr>key = externalUriOpenersSettingId sv, edit = True\<rparr>)]
       \<and> invoked (snd (openExternal sv providers href)) = []
       \<and> (openGlobalSettings sv True \<lparr>key = externalUriOpenersSettingId sv, edit = True\<rparr>
            = Inr () \<longrightarrow>
          fst (openExternal sv providers href) = Inr True)
       \<and> (\<forall>e. openGlobalSettings sv True
                 \<lparr>key = externalUriOpenersSettingId sv, edit = True\<rparr> = Inl e \<longrightarrow>
              fst (openExternal sv providers href) = Inl e)"
proof -
  from picker_shown [OF assms(1)] obtain u retained os where
    i: "items = pick_items os" "ph = placeHolder sv u" and
    run: "openExternal sv providers href =
             (fst (pick_and_open sv href u os),
              snd (pick_and_open sv href u os) @ store_dispose retained)" by blast
  let ?reveal = "\<lparr>key = externalUriOpenersSettingId sv, edit = True\<rparr>"
  from assms(2,3) i have
    "pick_and_open sv href u os =
       ((case openGlobalSettings sv True ?reveal of Inl e \<Rightarrow> Inl e | Inr _ \<Rightarrow> Inr True),
        [Pick items ph, OpenGlobalSettings True ?reveal])"
    by (simp add: pick_and_open_def Let_def split: sum.splits)
  with run show ?thesis
    by (simp add: invoked_append invoked_store_dispose revealed_append revealed_store_dispose)
qed

text \<open>The user selects Configure default opener...\<close>

theorem configure_default_reveals_setting_witness:
  "Item item_configure \<in> set (pick_items [opener_A, opener_B])
   \<and> shown (snd (openExternal (demo_services None (Inr (Some item_configure)))
      [provider_A, provider_B] (HrefString ''http://example.com''))) =
     [(pick_items [opener_A, opener_B], ''Select opener for http://example.com/'')]
   \<and> openGlobalSettings (demo_services None (Inr (Some item_configure))) True
       \<lparr>key = ''workbench.externalUriOpeners'', edit = True\<rparr> = Inr ()
   \<and> revealed (snd (openExternal (demo_services None (Inr (Some item_configure)))
      [provider_A, provider_B] (HrefString ''http://example.com''))) =
     [(True, \<lparr>key = ''workbench.externalUriOpeners'', edit = True\<rparr>)]
   \<and> invoked (snd (openExternal (demo_services None (Inr (Some item_configure)))
      [provider_A, provider_B] (HrefString ''http://example.com''))) = []
   \<and> fst (openExternal (demo_services None (Inr (Some item_configure)))
      [provider_A, provider_B] (HrefString ''http://example.com'')) = Inr True"
proof -
  let ?sv = "demo_services None (Inr (Some item_configure))"
  let ?run = "openExternal ?sv [provider_A, provider_B] (HrefString ''http://example.com'')"
  have s: "shown (snd ?run) =
     [(pick_items [opener_A, opener_B], ''Select opener for http://example.com/'')]"
    by (simp add: openExternal_def targetUri_of_def demo_services_def demo_parse_def
        provider_A_def provider_B_def store_add_def try_block_def opener_A_def opener_B_def
        demo_toString_def demo_hostname_def demo_getValue_def pick_and_open_def Let_def
        demo_pick_def item_configure_def placeHolder_def store_dispose_def
        demo_openGlobalSettings_def)
  then have m: "(pick_items [opener_A, opener_B], ''Select opener for http://example.com/'')
      \<in> set (shown (snd ?run))" by simp
  have p: "pick ?sv (pick_items [opener_A, opener_B]) ''Select opener for http://example.com/'' =
        Inr (Some item_configure)"
    by (simp add: demo_services_def demo_pick_def)
  have c: "opener item_configure = ConfigureDefault"
    by (simp add: item_configure_def)
  have k: "externalUriOpenersSettingId ?sv = ''workbench.externalUriOpeners''"
    by (simp add: demo_services_def)
  have g: "openGlobalSettings ?sv True
       \<lparr>key = ''workbench.externalUriOpeners'', edit = True\<rparr> = Inr ()"
    by (simp add: demo_services_def demo_openGlobalSettings_def)
  have d: "Item item_configure \<in> set (pick_items [opener_A, opener_B])"
    by (simp add: pick_items_def item_configure_def)
  from configure_default_reveals_setting [OF m p c] s k g d show ?thesis by simp
qed

text \<open>
  The claim as the spec words it (\<open>openExternal\<close> returns true whenever that item is
  picked) fails when the Settings operation rejects: the setting is revealed, no opener is
  invoked, the handles are released, and the call rejects.
\<close>

theorem settings_rejection_propagates:
  "opener item_configure = ConfigureDefault
   \<and> openExternal (demo_services_failing_settings None (Inr (Some item_configure)))
      [provider_A, provider_B] (HrefString ''http://example.com'') =
     (Inl (Error ''settings failed''),
      [Pick (pick_items [opener_A, opener_B]) ''Select opener for http://example.com/'',
       OpenGlobalSettings True \<lparr>key = ''workbench.externalUriOpeners'', edit = True\<rparr>,
       Dispose 1, Dispose 2])"
  by (simp add: openExternal_def targetUri_of_def demo_services_failing_settings_def
      demo_parse_def provider_A_def provider_B_def store_add_def try_block_def opener_A_def
      opener_B_def demo_toString_def demo_hostname_def demo_getValue_def pick_and_open_def
      Let_def demo_pick_def item_configure_def placeHolder_def store_dispose_def
      failing_openGlobalSettings_def)

subsection \<open>Which handles are retained\<close>

text \<open>
  Claim C9, as the code has it. Line 71 tests the provider's answer itself
  (\<^verbatim>\<open>if (set)\<close>), not its list of openers: during the gathering step a disposal
  handle is retained exactly when a provider answered with a defined set, whether or not
  that set has openers (for an answer \<^verbatim>\<open>undefined\<close> nothing is retained); a defined set
  whose list of openers is empty has its handle retained. Here \<open>retained\<close> is the store
  once the loop has queried \<open>providers\<close>.
\<close>

theorem handle_retained_iff_set_defined:
  assumes "gather providers u [] [] = Inr (retained, os)"
  shows "(h \<in> set retained \<longleftrightarrow>
           (\<exists>p \<in> set providers. \<exists>s. p u = Inr (Some s) \<and> dispose_handle s = h))
       \<and> (\<forall>p \<in> set providers. \<forall>s.
             p u = Inr (Some s) \<and> openers s = [] \<longrightarrow> dispose_handle s \<in> set retained)"
proof -
  have r: "set retained =
      {h. \<exists>p \<in> set providers. \<exists>s. p u = Inr (Some s) \<and> dispose_handle s = h}"
    using gather_retains [OF assms] by simp
  then have "h \<in> set retained \<longleftrightarrow>
           (\<exists>p \<in> set providers. \<exists>s. p u = Inr (Some s) \<and> dispose_handle s = h)"
    by simp
  moreover from r have "\<forall>p \<in> set providers. \<forall>s.
             p u = Inr (Some s) \<and> openers s = [] \<longrightarrow> dispose_handle s \<in> set retained"
    by blast
  ultimately show ?thesis by blast
qed

text \<open>An undefined answer, an empty set (handle 3) and the set of A (handle 1).\<close>

theorem handle_retained_iff_set_defined_witness:
  "gather [provider_undefined, provider_empty, provider_A] ''http://example.com/'' [] [] =
     Inr ([3, 1], [opener_A])
   \<and> provider_empty ''http://example.com/'' = Inr (Some \<lparr>openers = [], dispose_handle = 3\<rparr>)
   \<and> (\<exists>p \<in> set [provider_undefined, provider_empty, provider_A].
        \<exists>s. p ''http://example.com/'' = Inr (Some s) \<and> dispose_handle s = 3)"
proof -
  have g: "gather [provider_undefined, provider_empty, provider_A] ''http://example.com/'' [] [] =
     Inr ([3, 1], [opener_A])"
    by (simp add: provider_undefined_def provider_empty_def provider_A_def store_add_def)
  have e: "provider_empty ''http://example.com/'' =
     Inr (Some \<lparr>openers = [], dispose_handle = 3\<rparr>)"
    by (simp add: provider_empty_def)
  have "(3::nat) \<in> set [3, 1]" by simp
  with handle_retained_iff_set_defined [OF g, of 3] g e show ?thesis by blast
qed

text \<open>
  The claim as the spec words it (a handle is retained exactly when the returned set is
  non-empty, and a defined set with no openers has none retained) fails: the set of
  \<open>provider_empty\<close> has no openers, its handle 3 is in the store after the gathering,
  and the call disposes it.
\<close>

theorem empty_set_handle_is_retained:
  "provider_empty ''http://example.com/'' = Inr (Some \<lparr>openers = [], dispose_handle = 3\<rparr>)
   \<and> gather [provider_empty] ''http://example.com/'' [] [] = Inr ([3], [])
   \<and> openExternal (demo_services None (Inr None)) [provider_empty]
        (HrefString ''http://example.com'') = (Inr False, [Dispose 3])"
  by (simp add: provider_empty_def store_add_def openExternal_def targetUri_of_def
      demo_services_def demo_parse_def try_block_def store_dispose_def)

subsection \<open>The argument handed to the configured opener\<close>

text \<open>
  Claim C10. On the path where the configuration scan finds an opener, that opener's
  \<open>openExternal\<close> is invoked with \<open>href\<close>, the argument of the call as it was passed: not
  with the target URI \<open>u\<close> made from it on line 65, and not with the string
  \<open>uri_toString sv u\<close>. The effects of the call are that one invocation and the disposals.
\<close>

theorem configured_opener_receives_href:
  assumes "targetUri_of sv href = Inr u"
    and "gather providers u [] [] = Inr (retained, os)"
    and "url_hostname sv (uri_toString sv u) = Inr host"
    and "scan_config (case getValue sv (externalUriOpenersSettingId sv) of
                        None \<Rightarrow> [] | Some c \<Rightarrow> c) host os = Some configured"
  shows "snd (openExternal sv providers href) =
           OpenExternal configured href # map Dispose retained"
proof -
  from assms(4) have "os \<noteq> []" by (auto simp add: scan_config_no_openers)
  with assms(3,4) have
    "try_block sv href u os =
       (opener_openExternal configured href, [OpenExternal configured href])"
    by (simp add: try_block_def)
  with openExternal_gathered [OF assms(1,2)] show ?thesis
    by (simp add: store_dispose_def)
qed

text \<open>
  The link is the string without the root path, the target URI prints with it. Opener A,
  bound to the host, is handed the string as it came and accepts it; it would refuse the
  printed form.
\<close>

theorem configured_opener_receives_href_witness:
  "targetUri_of (demo_services (Some [binding ''example.com'' ''a'']) (Inr None))
      (HrefString ''http://example.com'') = Inr ''http://example.com/''
   \<and> uri_toString (demo_services (Some [binding ''example.com'' ''a'']) (Inr None))
      ''http://example.com/'' = ''http://example.com/''
   \<and> snd (openExternal (demo_services (Some [binding ''example.com'' ''a'']) (Inr None))
      [provider_A, provider_B] (HrefString ''http://example.com'')) =
     [OpenExternal opener_A (HrefString ''http://example.com''), Dispose 1, Dispose 2]
   \<and> opener_openExternal opener_A (HrefString ''http://example.com'') = Inr True
   \<and> opener_openExternal opener_A (HrefString ''http://example.com/'') = Inr False"
proof -
  let ?sv = "demo_services (Some [binding ''example.com'' ''a'']) (Inr None)"
  have u: "targetUri_of ?sv (HrefString ''http://example.com'') = Inr ''http://example.com/''"
    by (simp add: targetUri_of_def demo_services_def demo_parse_def)
  have g: "gather [provider_A, provider_B] ''http://example.com/'' [] [] =
       Inr ([1, 2], [opener_A, opener_B])"
    by (simp add: provider_A_def provider_B_def store_add_def)
  have h: "url_hostname ?sv (uri_toString ?sv ''http://example.com/'') = Inr ''example.com''"
    by (simp add: demo_services_def demo_toString_def demo_hostname_def)
  have c: "scan_config (case getValue ?sv (externalUriOpenersSettingId ?sv) of
                        None \<Rightarrow> [] | Some c \<Rightarrow> c) ''example.com'' [opener_A, opener_B] =
           Some opener_A"
    by (simp add: demo_services_def demo_getValue_def binding_def opener_A_def opener_B_def)
  have t: "uri_toString ?sv ''http://example.com/'' = ''http://example.com/''"
    by (simp add: demo_services_def demo_toString_def)
  have a: "opener_openExternal opener_A (HrefString ''http://example.com'') = Inr True
     \<and> opener_openExternal opener_A (HrefString ''http://example.com/'') = Inr False"
    by (simp add: opener_A_def run_A_def)
  from configured_opener_receives_href [OF u g h c] u t a show ?thesis by simp
qed

text \<open>An instance of claim C8: the user picks A, and A alone is invoked.\<close>

theorem at_most_one_opener_invoked_witness:
  "length (invoked (snd (openExternal (demo_services None (Inr (Some (item_of opener_A))))
      [provider_A, provider_B] (HrefString ''http://example.com'')))) \<le> 1"
  by (rule at_most_one_opener_invoked)

end
